theory Spec2Isabelle
  imports Complex_Main "HOL-Library.Word"
begin

unbundle bit_operations_syntax

section \<open>The narrow format E9S12\<close>

text \<open>
  The dataclass \<open>E9S12\<close> of \<open>implementation.py\<close>: one sign bit, nine exponent bits
  (bias 139), twelve significand bits and three classification flags. The fields are
  Python integers, which the dataclass does not range-check, hence \<open>int\<close>.
\<close>

record E9S12 =
  sign :: int
  exponent :: int
  significand :: int
  is_zero :: bool
  is_inf :: bool
  is_nan :: bool

definition EXPONENT_BIAS :: int where
  "EXPONENT_BIAS = 139"

definition SIGNIFICAND_BITS :: nat where
  "SIGNIFICAND_BITS = 12"

definition EXPONENT_BITS :: nat where
  "EXPONENT_BITS = 9"

text \<open>
  The result of \<open>to_float\<close> is a Python float. Its finite values are modelled by the real
  number they denote, with the negative zero, the two infinities and NaN kept apart
  (\<open>Finite 0\<close> is \<open>+0.0\<close>). On the field ranges of the format (significand below \<open>2^12\<close>,
  exponent at most 511) every intermediate result of \<open>to_float\<close> is a twelve-bit integer
  times a power of two between \<open>2^-150\<close> and \<open>2^372\<close>, which binary64 holds without
  rounding, so the real number is the float that Python computes.
\<close>

datatype pyfloat = Finite real | NegZero | PosInf | NegInf | NaN

text \<open>Python's unary minus on a finite float: it flips the sign of zero too.\<close>

definition neg_finite :: "real \<Rightarrow> pyfloat" where
  "neg_finite v = (if v = 0 then NegZero else Finite (- v))"

definition to_float :: "E9S12 \<Rightarrow> pyfloat" where
  "to_float self =
    (if is_zero self then (if sign self \<noteq> 0 then NegZero else Finite 0)
     else if is_inf self then (if sign self \<noteq> 0 then NegInf else PosInf)
     else if is_nan self then NaN
     else
       let unbiased_exp = exponent self - EXPONENT_BIAS;
           significand_value = real_of_int (significand self) / 2 ^ (SIGNIFICAND_BITS - 1);
           value = significand_value * 2 powi unbiased_exp
       in (if sign self \<noteq> 0 then neg_finite value else Finite value))"

text \<open>The number a float denotes, where it denotes one.\<close>

fun numeric_value :: "pyfloat \<Rightarrow> real option" where
  "numeric_value (Finite v) = Some v"
| "numeric_value NegZero = Some 0"
| "numeric_value PosInf = None"
| "numeric_value NegInf = None"
| "numeric_value NaN = None"

section \<open>The fields of a bit pattern\<close>

text \<open>
  A binary32 value is identified with its bit pattern, a 32-bit word. Its three fields
  are read off the word itself: bit 31, bits 23 to 30 and bits 0 to 22. The properties
  below are stated over these, so that they compare the integer arithmetic of
  \<open>unpack_fp32\<close> with the layout of the format.
\<close>

definition sign_field :: "32 word \<Rightarrow> int" where
  "sign_field v = (if bit v 31 then 1 else 0)"

definition exponent_field :: "32 word \<Rightarrow> int" where
  "exponent_field v = uint (take_bit 8 (drop_bit 23 v))"

definition fraction_field :: "32 word \<Rightarrow> int" where
  "fraction_field v = uint (take_bit 23 v)"

section \<open>Unpacking a binary32 value\<close>

text \<open>
  \<open>float32_to_bits\<close> is \<open>struct.unpack('>I', struct.pack('>f', f))[0]\<close>: it packs the
  value as a big-endian binary32 and reads the four bytes back as an unsigned integer.
  \<open>struct.pack\<close> converts its argument to a binary64 and back to a binary32. That keeps
  every pattern but those of the signalling NaNs, which come back quiet: a NaN (exponent
  field 255, fraction field not 0) has bit 22, the quiet bit, set, and its sign and the
  rest of its payload kept (\<open>0xFF800001\<close> is packed as \<open>0xFFC00001\<close>).
\<close>

definition quiet_nan :: "32 word \<Rightarrow> 32 word" where
  "quiet_nan f =
    (if exponent_field f = 255 \<and> fraction_field f \<noteq> 0 then f OR 0x00400000 else f)"

definition float32_to_bits :: "32 word \<Rightarrow> int" where
  "float32_to_bits f = uint (quiet_nan f)"

text \<open>The dictionary \<open>flags\<close> with its four fixed keys.\<close>

record fp32_flags =
  flags_is_zero :: bool
  flags_is_inf :: bool
  flags_is_nan :: bool
  flags_is_subnormal :: bool

definition unpack_fp32 :: "32 word \<Rightarrow> int \<times> int \<times> int \<times> fp32_flags" where
  "unpack_fp32 v =
    (let bits = float32_to_bits v;
         sign_f = drop_bit 31 bits AND 1;
         exponent_f = drop_bit 23 bits AND 0xFF;
         fraction = bits AND 0x7FFFFF;
         zero_f = (exponent_f = 0 \<and> fraction = 0);
         inf_f = (exponent_f = 0xFF \<and> fraction = 0);
         nan_f = (exponent_f = 0xFF \<and> fraction \<noteq> 0);
         subnormal_f = (exponent_f = 0 \<and> fraction \<noteq> 0);
         significand_f =
           (if exponent_f = 0 then push_bit 1 fraction else push_bit 23 1 OR fraction);
         flags = \<lparr>flags_is_zero = zero_f, flags_is_inf = inf_f, flags_is_nan = nan_f,
                  flags_is_subnormal = subnormal_f\<rparr>
     in (sign_f, exponent_f, significand_f, flags))"

section \<open>The decomposition\<close>

text \<open>The two twelve-bit limbs of the significand, as the finite branch computes them.\<close>

definition sig_h :: "int \<Rightarrow> int" where
  "sig_h sig = drop_bit 12 sig AND 0xFFF"

definition sig_l :: "int \<Rightarrow> int" where
  "sig_l sig = sig AND 0xFFF"

text \<open>
  The constructor call \<open>E9S12(sign, exponent, significand, is_zero=z)\<close>, and the same with
  \<open>is_inf\<close> or \<open>is_nan\<close>; the flags that are not passed default to \<open>False\<close>.
\<close>

definition E9S12_zero :: "int \<Rightarrow> int \<Rightarrow> int \<Rightarrow> bool \<Rightarrow> E9S12" where
  "E9S12_zero s e m z =
    \<lparr>sign = s, exponent = e, significand = m, is_zero = z, is_inf = False, is_nan = False\<rparr>"

definition E9S12_inf :: "int \<Rightarrow> int \<Rightarrow> int \<Rightarrow> bool \<Rightarrow> E9S12" where
  "E9S12_inf s e m i =
    \<lparr>sign = s, exponent = e, significand = m, is_zero = False, is_inf = i, is_nan = False\<rparr>"

definition E9S12_nan :: "int \<Rightarrow> int \<Rightarrow> int \<Rightarrow> bool \<Rightarrow> E9S12" where
  "E9S12_nan s e m n =
    \<lparr>sign = s, exponent = e, significand = m, is_zero = False, is_inf = False, is_nan = n\<rparr>"

definition fp32_to_e9s12_decomposition :: "32 word \<Rightarrow> E9S12 \<times> E9S12" where
  "fp32_to_e9s12_decomposition v =
    (case unpack_fp32 v of (sign_f, exp_f, sig, flags) \<Rightarrow>
      if flags_is_zero flags then
        (E9S12_zero sign_f 0 0 True, E9S12_zero sign_f 0 0 True)
      else if flags_is_inf flags then
        (E9S12_inf sign_f 511 0 True, E9S12_zero sign_f 0 0 True)
      else if flags_is_nan flags then
        (E9S12_nan sign_f 511 1 True, E9S12_zero sign_f 0 0 True)
      else
        let exp_h = exp_f + 12;
            exp_l = exp_f;
            u_h = E9S12_zero sign_f exp_h (sig_h sig) (sig_h sig = 0);
            u_l = E9S12_zero sign_f exp_l (sig_l sig) (sig_l sig = 0)
        in (u_h, u_l))"

section \<open>The value that a bit pattern denotes\<close>

text \<open>
  The real number that a finite binary32 pattern denotes (IEEE 754: bias 127, 23 fraction
  bits, no implicit bit when the exponent field is 0). It is meaningful for exponent
  fields below 255 only.
\<close>

definition fp32_value :: "32 word \<Rightarrow> real" where
  "fp32_value v =
    (let s = sign_field v; e = exponent_field v; f = fraction_field v
     in (if s = 0 then 1 else - 1) *
        (if e = 0 then real_of_int f / 2 ^ 23 * 2 powi (- 126)
         else (1 + real_of_int f / 2 ^ 23) * 2 powi (e - 127)))"

text \<open>
  The 24-bit significand that \<open>unpack_fp32\<close> returns for a pattern that is not a NaN, in
  arithmetic form.
\<close>

definition significand_of :: "32 word \<Rightarrow> int" where
  "significand_of v =
    (if exponent_field v = 0 then 2 * fraction_field v else 2 ^ 23 + fraction_field v)"

section \<open>Masks and shifts on Python integers\<close>

lemma and_1_int: "(k::int) AND 1 = take_bit 1 k"
  using take_bit_eq_mask [of 1 k] by (simp add: mask_eq_exp_minus_1)

lemma and_255_int: "(k::int) AND 0xFF = take_bit 8 k"
  using take_bit_eq_mask [of 8 k] by (simp add: mask_eq_exp_minus_1)

lemma and_fraction_int: "(k::int) AND 0x7FFFFF = take_bit 23 k"
  using take_bit_eq_mask [of 23 k] by (simp add: mask_eq_exp_minus_1)

lemma and_4095_int: "(k::int) AND 0xFFF = take_bit 12 k"
  using take_bit_eq_mask [of 12 k] by (simp add: mask_eq_exp_minus_1)

lemma or_implicit_bit:
  fixes f :: int
  assumes "0 \<le> f" and "f < 2 ^ 23"
  shows "8388608 OR f = 8388608 + f"
proof -
  have tb: "take_bit 23 f = f"
    using assms by (simp add: take_bit_int_eq_self)
  have hi: "\<not> bit f n" if "23 \<le> n" for n
  proof -
    have "bit (take_bit 23 f) n = False"
      using that by (simp add: bit_take_bit_iff)
    then show ?thesis by (simp add: tb)
  qed
  have "(2::int) ^ 23 AND f = 0"
  proof (rule bit_eqI)
    fix n
    show "bit ((2::int) ^ 23 AND f) n = bit (0::int) n"
      unfolding bit_and_iff bit_exp_iff using hi [of n] by auto
  qed
  then have "(2::int) ^ 23 + f = 2 ^ 23 OR f"
    by (rule disjunctive_add_eq_or)
  then show ?thesis by simp
qed

lemma take_bit_32_uint: "take_bit 32 (uint (v :: 32 word)) = uint v"
  using uint_lt2p [of v] by (simp add: take_bit_int_eq_self)

lemma sign_field_arith: "drop_bit 31 (uint v) AND 1 = sign_field (v :: 32 word)"
proof -
  have "drop_bit 31 (uint v) AND 1 = of_bool (bit (uint v) 31)"
    by (auto simp add: and_one_eq bit_iff_odd_drop_bit odd_iff_mod_2_eq_one)
  then show ?thesis by (simp add: sign_field_def bit_uint_iff)
qed

lemma exponent_field_arith: "drop_bit 23 (uint v) AND 0xFF = exponent_field (v :: 32 word)"
  by (simp add: and_255_int exponent_field_def unsigned_take_bit_eq unsigned_drop_bit_eq
      take_bit_32_uint)

lemma fraction_field_arith: "uint v AND 0x7FFFFF = fraction_field (v :: 32 word)"
  by (simp add: and_fraction_int fraction_field_def unsigned_take_bit_eq)

lemma exponent_field_range: "0 \<le> exponent_field v" "exponent_field v \<le> 255"
proof -
  show "0 \<le> exponent_field v" by (simp add: exponent_field_def)
  have "exponent_field v < 2 ^ 8"
    unfolding exponent_field_def unsigned_take_bit_eq by (rule take_bit_int_less_exp)
  then show "exponent_field v \<le> 255" by simp
qed

lemma fraction_field_range: "0 \<le> fraction_field v" "fraction_field v < 2 ^ 23"
proof -
  show "0 \<le> fraction_field v" by (simp add: fraction_field_def)
  show "fraction_field v < 2 ^ 23"
    unfolding fraction_field_def unsigned_take_bit_eq by (rule take_bit_int_less_exp)
qed

text \<open>What the packing keeps of a pattern, and what it changes.\<close>

lemma quiet_bit_word: "(0x00400000 :: 32 word) = 2 ^ 22"
  by simp

lemma sign_field_quiet_nan: "sign_field (quiet_nan v) = sign_field v"
proof -
  have "bit (v OR 2 ^ 22) 31 = bit v 31"
    by (simp add: bit_or_iff bit_exp_iff)
  then show ?thesis
    by (simp only: quiet_nan_def sign_field_def quiet_bit_word split: if_split) simp
qed

lemma exponent_field_quiet_nan: "exponent_field (quiet_nan v) = exponent_field v"
proof -
  have "take_bit 8 (drop_bit 23 (v OR 2 ^ 22)) = take_bit 8 (drop_bit 23 v)"
    by (rule bit_eqI)
      (simp add: bit_take_bit_iff bit_drop_bit_eq bit_or_iff bit_exp_iff)
  then show ?thesis
    by (simp only: quiet_nan_def exponent_field_def quiet_bit_word split: if_split) simp
qed

lemma fraction_field_set_quiet_bit:
  "fraction_field (v OR 0x00400000) = set_bit 22 (fraction_field v)"
proof -
  have "uint (take_bit 23 (v OR 2 ^ 22)) = set_bit 22 (uint (take_bit 23 v))"
  proof (rule bit_eqI)
    fix n
    show "bit (uint (take_bit 23 (v OR 2 ^ 22))) n = bit (set_bit 22 (uint (take_bit 23 v))) n"
      unfolding bit_uint_iff bit_take_bit_iff bit_or_iff bit_exp_iff bit_set_bit_iff
      by auto
  qed
  then show ?thesis
    by (simp only: fraction_field_def quiet_bit_word)
qed

lemma fraction_field_quiet_nan:
  "fraction_field (quiet_nan v) =
    (if exponent_field v = 255 \<and> fraction_field v \<noteq> 0 then set_bit 22 (fraction_field v)
     else fraction_field v)"
  by (simp only: quiet_nan_def fraction_field_set_quiet_bit split: if_split) simp

lemma set_quiet_bit_nonzero: "set_bit 22 (k::int) \<noteq> 0"
proof
  assume "set_bit 22 k = 0"
  then have "bit (set_bit 22 k) 22 = bit (0::int) 22" by simp
  then show False by (simp add: bit_set_bit_iff)
qed

lemma fraction_field_quiet_nan_zero:
  "(fraction_field (quiet_nan v) = 0) = (fraction_field v = 0)"
  by (simp add: fraction_field_quiet_nan set_quiet_bit_nonzero)

lemma unpack_fp32_fields:
  "unpack_fp32 v =
    (sign_field v, exponent_field v,
     (if exponent_field v = 0 then 2 * fraction_field v
      else 2 ^ 23 + fraction_field (quiet_nan v)),
     \<lparr>flags_is_zero = (exponent_field v = 0 \<and> fraction_field v = 0),
      flags_is_inf = (exponent_field v = 255 \<and> fraction_field v = 0),
      flags_is_nan = (exponent_field v = 255 \<and> fraction_field v \<noteq> 0),
      flags_is_subnormal = (exponent_field v = 0 \<and> fraction_field v \<noteq> 0)\<rparr>)"
proof -
  have same: "exponent_field v = 0 \<Longrightarrow> fraction_field (quiet_nan v) = fraction_field v"
    by (simp add: fraction_field_quiet_nan)
  show ?thesis
    unfolding unpack_fp32_def float32_to_bits_def Let_def
      sign_field_arith exponent_field_arith fraction_field_arith
    using fraction_field_range [of "quiet_nan v"]
    by (simp add: or_implicit_bit push_bit_eq_mult sign_field_quiet_nan
        exponent_field_quiet_nan fraction_field_quiet_nan_zero same)
qed

lemma sig_h_arith:
  fixes sig :: int
  assumes "0 \<le> sig" and "sig < 2 ^ 24"
  shows "sig_h sig = sig div 4096"
proof -
  have "0 \<le> sig div 4096" and "sig div 4096 < 4096"
    using assms by simp_all
  then have "take_bit 12 (sig div 4096) = sig div 4096"
    by (simp add: take_bit_int_eq_self)
  then show ?thesis
    by (simp add: sig_h_def and_4095_int drop_bit_eq_div)
qed

lemma sig_l_arith: "sig_l sig = sig mod 4096"
  by (simp add: sig_l_def and_4095_int take_bit_eq_mod)

lemma sig_l_range: "0 \<le> sig_l sig" "sig_l sig \<le> 4095"
  by (simp_all add: sig_l_arith) 

lemma sig_h_range: "0 \<le> sig_h sig" "sig_h sig \<le> 4095"
proof -
  have eq: "sig_h sig = take_bit 12 (drop_bit 12 sig)"
    by (simp add: sig_h_def and_4095_int)
  show "0 \<le> sig_h sig" by (simp add: eq)
  have "sig_h sig < 2 ^ 12"
    unfolding eq by (rule take_bit_int_less_exp)
  then show "sig_h sig \<le> 4095" by simp
qed

section \<open>The decomposition, case by case\<close>

lemma significand_of_range: "0 \<le> significand_of v" "significand_of v < 2 ^ 24"
  using fraction_field_range [of v] by (simp_all add: significand_of_def)

lemma decomposition_zero:
  assumes "exponent_field v = 0" and "fraction_field v = 0"
  shows "fp32_to_e9s12_decomposition v =
    (E9S12_zero (sign_field v) 0 0 True, E9S12_zero (sign_field v) 0 0 True)"
  using assms by (simp add: fp32_to_e9s12_decomposition_def unpack_fp32_fields)

lemma decomposition_inf:
  assumes "exponent_field v = 255" and "fraction_field v = 0"
  shows "fp32_to_e9s12_decomposition v =
    (E9S12_inf (sign_field v) 511 0 True, E9S12_zero (sign_field v) 0 0 True)"
  using assms by (simp add: fp32_to_e9s12_decomposition_def unpack_fp32_fields)

lemma decomposition_nan:
  assumes "exponent_field v = 255" and "fraction_field v \<noteq> 0"
  shows "fp32_to_e9s12_decomposition v =
    (E9S12_nan (sign_field v) 511 1 True, E9S12_zero (sign_field v) 0 0 True)"
  using assms by (simp add: fp32_to_e9s12_decomposition_def unpack_fp32_fields)

lemma decomposition_finite:
  assumes "exponent_field v \<noteq> 255" and "exponent_field v \<noteq> 0 \<or> fraction_field v \<noteq> 0"
  shows "fp32_to_e9s12_decomposition v =
    (E9S12_zero (sign_field v) (exponent_field v + 12) (sig_h (significand_of v))
       (sig_h (significand_of v) = 0),
     E9S12_zero (sign_field v) (exponent_field v) (sig_l (significand_of v))
       (sig_l (significand_of v) = 0))"
  using assms
  by (auto simp add: fp32_to_e9s12_decomposition_def unpack_fp32_fields significand_of_def
      fraction_field_quiet_nan Let_def)

lemma input_cases:
  obtains (zero) "exponent_field v = 0" "fraction_field v = 0"
  | (inf) "exponent_field v = 255" "fraction_field v = 0"
  | (nan) "exponent_field v = 255" "fraction_field v \<noteq> 0"
  | (finite) "exponent_field v \<noteq> 255" "exponent_field v \<noteq> 0 \<or> fraction_field v \<noteq> 0"
  by blast

section \<open>Properties of the decomposition\<close>

text \<open>
  C5. For every 24-bit significand \<open>sig\<close>, the two limbs of the finite branch,
  \<open>sig_h = (sig >> 12) & 0xFFF\<close> and \<open>sig_l = sig & 0xFFF\<close>, give the significand
  back exactly: \<open>(sig_h << 12) | sig_l = sig\<close>.
\<close>

theorem sig_split_exact:
  fixes sig :: int
  assumes "0 \<le> sig" and "sig < 2 ^ 24"
  shows "push_bit 12 (sig_h sig) OR sig_l sig = sig"
proof -
  have tb: "take_bit 24 sig = sig"
    using assms by (simp add: take_bit_int_eq_self)
  have hi: "n < 24" if "bit sig n" for n
  proof -
    have "bit (take_bit 24 sig) n"
      using that by (simp add: tb)
    then show ?thesis by (simp add: bit_take_bit_iff)
  qed
  have h: "sig_h sig = take_bit 12 (drop_bit 12 sig)"
    by (simp add: sig_h_def and_4095_int)
  have l: "sig_l sig = take_bit 12 sig"
    by (simp add: sig_l_def and_4095_int)
  show ?thesis
  proof (rule bit_eqI)
    fix n
    show "bit (push_bit 12 (sig_h sig) OR sig_l sig) n = bit sig n"
      unfolding h l bit_or_iff bit_push_bit_iff bit_take_bit_iff bit_drop_bit_eq
      using hi [of n] by (cases "n < 12") (auto simp add: less_diff_conv2)
  qed
qed

theorem sig_split_exact_witness:
  "(0::int) \<le> 0xC90FDB \<and> (0xC90FDB::int) < 2 ^ 24 \<and>
   push_bit 12 (sig_h 0xC90FDB) OR sig_l 0xC90FDB = 0xC90FDB"
  using sig_split_exact [of "0xC90FDB"] by simp

text \<open>
  C3. For every 32-bit pattern, \<open>unpack_fp32\<close> sets \<open>is_zero\<close> iff the exponent field and
  the fraction field are both 0, \<open>is_subnormal\<close> iff the exponent field is 0 and the
  fraction field is not, \<open>is_inf\<close> iff the exponent field is 255 and the fraction field is
  0, \<open>is_nan\<close> iff the exponent field is 255 and the fraction field is not 0. Exactly one
  of the five classes applies: one of the four flags, or none of them and then the value
  is normal (exponent field between 1 and 254).
\<close>

theorem unpack_fp32_classification:
  "(case unpack_fp32 v of (s, e, m, flags) \<Rightarrow>
      flags_is_zero flags = (exponent_field v = 0 \<and> fraction_field v = 0) \<and>
      flags_is_subnormal flags = (exponent_field v = 0 \<and> fraction_field v \<noteq> 0) \<and>
      flags_is_inf flags = (exponent_field v = 255 \<and> fraction_field v = 0) \<and>
      flags_is_nan flags = (exponent_field v = 255 \<and> fraction_field v \<noteq> 0) \<and>
      length (filter id [flags_is_zero flags, flags_is_subnormal flags, flags_is_inf flags,
        flags_is_nan flags, 1 \<le> exponent_field v \<and> exponent_field v \<le> 254]) = 1)"
  using exponent_field_range [of v] by (auto simp add: unpack_fp32_fields)




text \<open>
  C6. Decomposing \<open>+0.0\<close> (pattern \<open>0x00000000\<close>) gives two parts with sign 0,
  \<open>is_zero\<close> set, exponent 0 and significand 0; decomposing \<open>-0.0\<close> (pattern
  \<open>0x80000000\<close>) gives the same with sign 1 on both parts.
\<close>

theorem decompose_signed_zero:
  "fp32_to_e9s12_decomposition 0x00000000 =
     (\<lparr>sign = 0, exponent = 0, significand = 0, is_zero = True, is_inf = False, is_nan = False\<rparr>,
      \<lparr>sign = 0, exponent = 0, significand = 0, is_zero = True, is_inf = False, is_nan = False\<rparr>) \<and>
   fp32_to_e9s12_decomposition 0x80000000 =
     (\<lparr>sign = 1, exponent = 0, significand = 0, is_zero = True, is_inf = False, is_nan = False\<rparr>,
      \<lparr>sign = 1, exponent = 0, significand = 0, is_zero = True, is_inf = False, is_nan = False\<rparr>)"
  by (simp add: fp32_to_e9s12_decomposition_def unpack_fp32_def float32_to_bits_def
      quiet_nan_def exponent_field_def fraction_field_def E9S12_zero_def)

text \<open>
  C7. Decomposing \<open>+\<infinity>\<close> (pattern \<open>0x7F800000\<close>) or \<open>-\<infinity>\<close> (pattern \<open>0xFF800000\<close>) gives
  a high part with the sign of the input, exponent 511, significand 0 and \<open>is_inf\<close> set,
  and a low part with the sign of the input, exponent 0, significand 0 and \<open>is_zero\<close>
  set. Decomposing any NaN pattern (exponent field 255, fraction field not 0) gives a
  high part with the sign of the input, exponent 511, significand 1 and \<open>is_nan\<close> set,
  and a zero-flagged low part.
\<close>

theorem decompose_inf_nan:
  "fp32_to_e9s12_decomposition 0x7F800000 =
     (\<lparr>sign = 0, exponent = 511, significand = 0, is_zero = False, is_inf = True, is_nan = False\<rparr>,
      \<lparr>sign = 0, exponent = 0, significand = 0, is_zero = True, is_inf = False, is_nan = False\<rparr>) \<and>
   fp32_to_e9s12_decomposition 0xFF800000 =
     (\<lparr>sign = 1, exponent = 511, significand = 0, is_zero = False, is_inf = True, is_nan = False\<rparr>,
      \<lparr>sign = 1, exponent = 0, significand = 0, is_zero = True, is_inf = False, is_nan = False\<rparr>) \<and>
   (exponent_field v = 255 \<and> fraction_field v \<noteq> 0 \<longrightarrow>
     fp32_to_e9s12_decomposition v =
       (\<lparr>sign = sign_field v, exponent = 511, significand = 1, is_zero = False, is_inf = False,
          is_nan = True\<rparr>,
        \<lparr>sign = sign_field v, exponent = 0, significand = 0, is_zero = True, is_inf = False,
          is_nan = False\<rparr>))"
proof -
  have "fp32_to_e9s12_decomposition 0x7F800000 =
      (E9S12_inf 0 511 0 True, E9S12_zero 0 0 0 True)"
    by (simp add: fp32_to_e9s12_decomposition_def unpack_fp32_def float32_to_bits_def
      quiet_nan_def exponent_field_def fraction_field_def)
  moreover have "fp32_to_e9s12_decomposition 0xFF800000 =
      (E9S12_inf 1 511 0 True, E9S12_zero 1 0 0 True)"
    by (simp add: fp32_to_e9s12_decomposition_def unpack_fp32_def float32_to_bits_def
      quiet_nan_def exponent_field_def fraction_field_def)
  ultimately show ?thesis
    by (simp add: decomposition_nan E9S12_inf_def E9S12_nan_def E9S12_zero_def)
qed

theorem decompose_inf_nan_witness:
  "exponent_field 0x7FC00000 = 255 \<and> fraction_field 0x7FC00000 \<noteq> 0 \<and>
   fp32_to_e9s12_decomposition 0x7FC00000 =
     (\<lparr>sign = 0, exponent = 511, significand = 1, is_zero = False, is_inf = False, is_nan = True\<rparr>,
      \<lparr>sign = 0, exponent = 0, significand = 0, is_zero = True, is_inf = False, is_nan = False\<rparr>) \<and>
   exponent_field 0xFF800001 = 255 \<and> fraction_field 0xFF800001 \<noteq> 0 \<and>
   fp32_to_e9s12_decomposition 0xFF800001 =
     (\<lparr>sign = 1, exponent = 511, significand = 1, is_zero = False, is_inf = False, is_nan = True\<rparr>,
      \<lparr>sign = 1, exponent = 0, significand = 0, is_zero = True, is_inf = False, is_nan = False\<rparr>)"
  using decompose_inf_nan [of "0x7FC00000"] decompose_inf_nan [of "0xFF800001"]
  by (simp add: exponent_field_def fraction_field_def sign_field_def)

text \<open>
  C8. For every 32-bit pattern, both parts of the decomposition keep their fields within
  the widths of the format: the exponent is between 0 and 511 and the significand between
  0 and \<open>0xFFF\<close>. In the finite branch the shifted exponent \<open>exp + 12\<close> is at most 267.
\<close>

theorem fields_within_width:
  "(case fp32_to_e9s12_decomposition v of (high, low) \<Rightarrow>
      0 \<le> exponent high \<and> exponent high \<le> 511 \<and>
      0 \<le> significand high \<and> significand high \<le> 0xFFF \<and>
      0 \<le> exponent low \<and> exponent low \<le> 511 \<and>
      0 \<le> significand low \<and> significand low \<le> 0xFFF) \<and>
   exponent_field v + 12 \<le> 267"
proof (cases v rule: input_cases)
  case zero
  then show ?thesis
    by (simp add: decomposition_zero E9S12_zero_def)
next
  case inf
  then show ?thesis
    by (simp add: decomposition_inf E9S12_zero_def E9S12_inf_def)
next
  case nan
  then show ?thesis
    by (simp add: decomposition_nan E9S12_zero_def E9S12_nan_def)
next
  case finite
  have "fp32_to_e9s12_decomposition v =
      (E9S12_zero (sign_field v) (exponent_field v + 12) (sig_h (significand_of v))
         (sig_h (significand_of v) = 0),
       E9S12_zero (sign_field v) (exponent_field v) (sig_l (significand_of v))
         (sig_l (significand_of v) = 0))"
    using finite by (rule decomposition_finite)
  then show ?thesis
    using exponent_field_range [of v] sig_h_range [of "significand_of v"]
      sig_l_range [of "significand_of v"]
    by (simp add: E9S12_zero_def)
qed

text \<open>
  C9. For every nonzero finite input, normal or subnormal, both parts of the
  decomposition carry the sign bit of the input.
\<close>

theorem sign_preserved:
  assumes "exponent_field v \<noteq> 255"
    and "exponent_field v \<noteq> 0 \<or> fraction_field v \<noteq> 0"
  shows "sign (fst (fp32_to_e9s12_decomposition v)) = sign_field v \<and>
    sign (snd (fp32_to_e9s12_decomposition v)) = sign_field v"
  using assms by (simp add: decomposition_finite E9S12_zero_def)

theorem sign_preserved_witness:
  "exponent_field 0xC02DF854 = 128 \<and>
   sign_field 0xC02DF854 = 1 \<and>
   sign (fst (fp32_to_e9s12_decomposition 0xC02DF854)) = 1 \<and>
   sign (snd (fp32_to_e9s12_decomposition 0xC02DF854)) = 1 \<and>
   exponent_field 0x00000001 = 0 \<and>
   fraction_field 0x00000001 = 1 \<and>
   sign_field 0x00000001 = 0 \<and>
   sign (fst (fp32_to_e9s12_decomposition 0x00000001)) = 0 \<and>
   sign (snd (fp32_to_e9s12_decomposition 0x00000001)) = 0"
  using sign_preserved [of "0xC02DF854"] sign_preserved [of "0x00000001"]
  by (simp add: exponent_field_def fraction_field_def sign_field_def)

text \<open>
  The high limb of a normal input: the implicit bit made explicit is bit 23 of the
  significand, hence bit 11 of the high limb.
\<close>

lemma sig_h_normal:
  assumes "exponent_field v \<noteq> 0"
  shows "2048 \<le> sig_h (significand_of v)" and "sig_h (significand_of v) \<le> 4095"
proof -
  have m: "significand_of v = 2 ^ 23 + fraction_field v"
    using assms by (simp add: significand_of_def)
  have "sig_h (significand_of v) = significand_of v div 4096"
    using significand_of_range [of v] by (rule sig_h_arith)
  then have h: "sig_h (significand_of v) = (8388608 + fraction_field v) div 4096"
    by (simp add: m)
  show "2048 \<le> sig_h (significand_of v)"
    unfolding h using fraction_field_range [of v] by simp
  show "sig_h (significand_of v) \<le> 4095"
    by (rule sig_h_range)
qed

text \<open>
  C10, as amended. For every normal input (exponent field between 1 and 254) the high
  part is not flagged \<open>is_zero\<close> and its significand has its top bit set
  (\<open>0x800 \<le> sig_h \<le> 0xFFF\<close>). A zero-flagged high part arises only from inputs whose
  exponent field is 0, that is from zero or subnormal inputs.
\<close>

theorem high_part_of_normal:
  "(1 \<le> exponent_field v \<and> exponent_field v \<le> 254 \<longrightarrow>
      \<not> is_zero (fst (fp32_to_e9s12_decomposition v)) \<and>
      0x800 \<le> significand (fst (fp32_to_e9s12_decomposition v)) \<and>
      significand (fst (fp32_to_e9s12_decomposition v)) \<le> 0xFFF) \<and>
   (is_zero (fst (fp32_to_e9s12_decomposition v)) \<longrightarrow> exponent_field v = 0)"
proof (cases v rule: input_cases)
  case zero
  then show ?thesis
    by (simp add: decomposition_zero E9S12_zero_def)
next
  case inf
  then show ?thesis
    by (simp add: decomposition_inf E9S12_zero_def E9S12_inf_def)
next
  case nan
  then show ?thesis
    by (simp add: decomposition_nan E9S12_zero_def E9S12_nan_def)
next
  case finite
  have high: "fst (fp32_to_e9s12_decomposition v) =
      E9S12_zero (sign_field v) (exponent_field v + 12) (sig_h (significand_of v))
        (sig_h (significand_of v) = 0)"
    using finite by (simp add: decomposition_finite)
  show ?thesis
  proof (cases "exponent_field v = 0")
    case True
    then show ?thesis by simp
  next
    case False
    then show ?thesis
      using sig_h_normal [of v] by (simp add: high E9S12_zero_def)
  qed
qed

theorem high_part_of_normal_witness:
  "1 \<le> exponent_field 0x3F800000 \<and> exponent_field 0x3F800000 \<le> 254 \<and>
   \<not> is_zero (fst (fp32_to_e9s12_decomposition 0x3F800000)) \<and>
   significand (fst (fp32_to_e9s12_decomposition 0x3F800000)) = 0x800 \<and>
   is_zero (fst (fp32_to_e9s12_decomposition 0x00000001)) \<and>
   exponent_field 0x00000001 = 0 \<and>
   is_zero (fst (fp32_to_e9s12_decomposition 0x00000000)) \<and>
   exponent_field 0x00000000 = 0"
  using high_part_of_normal [of "0x3F800000"] high_part_of_normal [of "0x00000001"]
    high_part_of_normal [of "0x00000000"]
  by (simp add: exponent_field_def fp32_to_e9s12_decomposition_def unpack_fp32_def
      float32_to_bits_def quiet_nan_def fraction_field_def E9S12_zero_def sig_h_def)

text \<open>
  C10 as stated does not hold: the high part of the decomposition of \<open>+0.0\<close> is flagged
  \<open>is_zero\<close>, and \<open>+0.0\<close> is not a subnormal input.
\<close>

theorem zero_high_part_counterexample:
  "is_zero (fst (fp32_to_e9s12_decomposition 0x00000000)) \<and>
   \<not> flags_is_subnormal (snd (snd (snd (unpack_fp32 0x00000000)))) \<and>
   \<not> (exponent_field 0x00000000 = 0 \<and> fraction_field 0x00000000 \<noteq> 0)"
  by (simp add: fp32_to_e9s12_decomposition_def unpack_fp32_def float32_to_bits_def
      quiet_nan_def exponent_field_def fraction_field_def E9S12_zero_def)

text \<open>
  C2, as amended. For every 32-bit pattern and each of the two parts, at most one of
  \<open>is_zero\<close>, \<open>is_inf\<close>, \<open>is_nan\<close> is set. A part flagged \<open>is_inf\<close> has exponent 511 and
  significand 0, a part flagged \<open>is_nan\<close> has exponent 511 and significand 1, and a part
  flagged \<open>is_zero\<close> has significand 0. A zero-flagged low part has exponent 0 when the
  input is infinite or NaN, and the exponent field of the input otherwise: 0 for a zero or
  subnormal input, between 1 and 254 for a normal one. A zero-flagged high part arises
  only from an input whose exponent field is 0; its exponent is 0 when the input is zero
  and 12 when it is subnormal. The low part is never flagged \<open>is_inf\<close> or \<open>is_nan\<close>.
\<close>

theorem flags_exclusive_and_encoded:
  "(case fp32_to_e9s12_decomposition v of (high, low) \<Rightarrow>
      length (filter id [is_zero high, is_inf high, is_nan high]) \<le> 1 \<and>
      length (filter id [is_zero low, is_inf low, is_nan low]) \<le> 1 \<and>
      (is_inf high \<longrightarrow> exponent high = 511 \<and> significand high = 0) \<and>
      (is_nan high \<longrightarrow> exponent high = 511 \<and> significand high = 1) \<and>
      (is_zero high \<longrightarrow> significand high = 0 \<and>
         exponent_field v = 0 \<and>
         exponent high = (if fraction_field v = 0 then 0 else 12)) \<and>
      \<not> is_inf low \<and> \<not> is_nan low \<and>
      (is_zero low \<longrightarrow> significand low = 0 \<and>
         exponent low = (if exponent_field v = 255 then 0 else exponent_field v)))"
proof (cases v rule: input_cases)
  case zero
  then show ?thesis
    by (simp add: decomposition_zero E9S12_zero_def)
next
  case inf
  then show ?thesis
    by (simp add: decomposition_inf E9S12_zero_def E9S12_inf_def)
next
  case nan
  then show ?thesis
    by (simp add: decomposition_nan E9S12_zero_def E9S12_nan_def)
next
  case finite
  have dec: "fp32_to_e9s12_decomposition v =
      (E9S12_zero (sign_field v) (exponent_field v + 12) (sig_h (significand_of v))
         (sig_h (significand_of v) = 0),
       E9S12_zero (sign_field v) (exponent_field v) (sig_l (significand_of v))
         (sig_l (significand_of v) = 0))"
    using finite by (rule decomposition_finite)
  show ?thesis
  proof (cases "exponent_field v = 0")
    case True
    with finite have "fraction_field v \<noteq> 0" by simp
    with True show ?thesis by (simp add: dec E9S12_zero_def)
  next
    case False
    with finite sig_h_normal [of v] show ?thesis
      by (simp add: dec E9S12_zero_def)
  qed
qed

theorem flags_exclusive_and_encoded_witness:
  "is_zero (snd (fp32_to_e9s12_decomposition 0x3F800000)) \<and>
   significand (snd (fp32_to_e9s12_decomposition 0x3F800000)) = 0 \<and>
   exponent (snd (fp32_to_e9s12_decomposition 0x3F800000)) = 127 \<and>
   is_zero (fst (fp32_to_e9s12_decomposition 0x00000001)) \<and>
   significand (fst (fp32_to_e9s12_decomposition 0x00000001)) = 0 \<and>
   exponent (fst (fp32_to_e9s12_decomposition 0x00000001)) = 12 \<and>
   exponent_field 0x00000800 = 0 \<and> fraction_field 0x00000800 = 0x800 \<and>
   is_zero (snd (fp32_to_e9s12_decomposition 0x00000800)) \<and>
   significand (snd (fp32_to_e9s12_decomposition 0x00000800)) = 0 \<and>
   exponent (snd (fp32_to_e9s12_decomposition 0x00000800)) = 0 \<and>
   is_zero (fst (fp32_to_e9s12_decomposition 0x00000000)) \<and>
   exponent (fst (fp32_to_e9s12_decomposition 0x00000000)) = 0 \<and>
   is_inf (fst (fp32_to_e9s12_decomposition 0x7F800000)) \<and>
   exponent (fst (fp32_to_e9s12_decomposition 0x7F800000)) = 511 \<and>
   significand (fst (fp32_to_e9s12_decomposition 0x7F800000)) = 0 \<and>
   is_nan (fst (fp32_to_e9s12_decomposition 0x7FC00000)) \<and>
   exponent (fst (fp32_to_e9s12_decomposition 0x7FC00000)) = 511 \<and>
   significand (fst (fp32_to_e9s12_decomposition 0x7FC00000)) = 1"
  using flags_exclusive_and_encoded [of "0x3F800000"]
    flags_exclusive_and_encoded [of "0x00000001"]
    flags_exclusive_and_encoded [of "0x00000800"]
    flags_exclusive_and_encoded [of "0x00000000"]
    flags_exclusive_and_encoded [of "0x7F800000"]
    flags_exclusive_and_encoded [of "0x7FC00000"]
  by (simp add: exponent_field_def fraction_field_def fp32_to_e9s12_decomposition_def
      unpack_fp32_def float32_to_bits_def quiet_nan_def E9S12_zero_def E9S12_inf_def
      E9S12_nan_def sig_h_def sig_l_def)

text \<open>
  C2 as stated does not hold: the low part of the decomposition of \<open>1.0\<close> (pattern
  \<open>0x3F800000\<close>) is flagged \<open>is_zero\<close> and its exponent is 127, not the canonical 0.
\<close>

theorem zero_flag_encoding_counterexample:
  "is_zero (snd (fp32_to_e9s12_decomposition 0x3F800000)) \<and>
   exponent (snd (fp32_to_e9s12_decomposition 0x3F800000)) = 127 \<and>
   exponent (snd (fp32_to_e9s12_decomposition 0x3F800000)) \<noteq> 0"
  by (simp add: fp32_to_e9s12_decomposition_def unpack_fp32_def float32_to_bits_def
      quiet_nan_def exponent_field_def fraction_field_def E9S12_zero_def sig_h_def sig_l_def)

text \<open>
  The number denoted by a part that the finite branch builds: the formula of \<open>to_float\<close>
  when the limb is not 0, and a zero of the same sign when it is.
\<close>

lemma numeric_value_finite_part:
  "numeric_value (to_float (E9S12_zero s e m (m = 0))) =
    Some ((if s = 0 then 1 else - 1) * (real_of_int m / 2 ^ 11 * 2 powi (e - 139)))"
  by (simp add: to_float_def E9S12_zero_def neg_finite_def EXPONENT_BIAS_def
      SIGNIFICAND_BITS_def Let_def)

lemma power_int_shift_12: "(2::real) powi (e + 12 - 139) = 4096 * 2 powi (e - 139)"
proof -
  have "(2::real) powi ((e - 139) + 12) = 2 powi (e - 139) * 2 powi 12"
    by (rule power_int_add) simp
  moreover have "e + 12 - 139 = (e - 139) + 12" by simp
  ultimately show ?thesis by simp
qed

lemma power_int_bias: "(2::real) powi (e - 127) = 4096 * 2 powi (e - 139)"
  using power_int_shift_12 [of e] by simp

lemma limbs_sum:
  fixes m :: int
  assumes "0 \<le> m" and "m < 2 ^ 24"
  shows "4096 * real_of_int (sig_h m) + real_of_int (sig_l m) = real_of_int m"
proof -
  have "4096 * sig_h m + sig_l m = m"
    using assms by (simp add: sig_h_arith sig_l_arith)
  then have "real_of_int (4096 * sig_h m + sig_l m) = real_of_int m"
    by simp
  then show ?thesis by simp
qed

lemma parts_sum:
  assumes "exponent_field v \<noteq> 255"
    and "exponent_field v \<noteq> 0 \<or> fraction_field v \<noteq> 0"
  shows "\<exists>vh vl.
    numeric_value (to_float (fst (fp32_to_e9s12_decomposition v))) = Some vh \<and>
    numeric_value (to_float (snd (fp32_to_e9s12_decomposition v))) = Some vl \<and>
    vh + vl = (if sign_field v = 0 then 1 else - 1) *
      (real_of_int (significand_of v) / 2 ^ 11 * 2 powi (exponent_field v - 139))"
proof -
  define m where "m = significand_of v"
  define P where "P = (2::real) powi (exponent_field v - 139)"
  define c where "c = (if sign_field v = 0 then 1 else - 1 :: real)"
  have dec: "fp32_to_e9s12_decomposition v =
      (E9S12_zero (sign_field v) (exponent_field v + 12) (sig_h m) (sig_h m = 0),
       E9S12_zero (sign_field v) (exponent_field v) (sig_l m) (sig_l m = 0))"
    unfolding m_def using assms by (rule decomposition_finite)
  have vh: "numeric_value (to_float (fst (fp32_to_e9s12_decomposition v))) =
      Some (c * (real_of_int (sig_h m) / 2 ^ 11 * (4096 * P)))"
    by (simp add: dec numeric_value_finite_part power_int_bias c_def P_def)
  have vl: "numeric_value (to_float (snd (fp32_to_e9s12_decomposition v))) =
      Some (c * (real_of_int (sig_l m) / 2 ^ 11 * P))"
    by (simp add: dec numeric_value_finite_part c_def P_def)
  have "c * (real_of_int (sig_h m) / 2 ^ 11 * (4096 * P)) +
      c * (real_of_int (sig_l m) / 2 ^ 11 * P) =
      c * ((4096 * real_of_int (sig_h m) + real_of_int (sig_l m)) / 2 ^ 11 * P)"
    by (simp add: algebra_simps add_divide_distrib)
  also have "\<dots> = c * (real_of_int m / 2 ^ 11 * P)"
    using significand_of_range [of v] by (simp add: limbs_sum m_def)
  finally have "c * (real_of_int (sig_h m) / 2 ^ 11 * (4096 * P)) +
      c * (real_of_int (sig_l m) / 2 ^ 11 * P) = c * (real_of_int m / 2 ^ 11 * P)" .
  with vh vl show ?thesis
    unfolding m_def P_def c_def by blast
qed

lemma fp32_value_normal:
  assumes "exponent_field v \<noteq> 0"
  shows "fp32_value v = (if sign_field v = 0 then 1 else - 1) *
    (real_of_int (significand_of v) / 2 ^ 11 * 2 powi (exponent_field v - 139))"
  using assms
  by (simp add: fp32_value_def significand_of_def power_int_bias Let_def field_simps)

lemma fp32_value_normal_nonzero:
  assumes "exponent_field v \<noteq> 0"
  shows "fp32_value v \<noteq> 0"
proof -
  have "0 < real_of_int (significand_of v)"
    using assms fraction_field_range [of v] by (simp add: significand_of_def)
  moreover have "(0::real) < 2 powi (exponent_field v - 139)"
    by simp
  ultimately show ?thesis
    using assms by (simp add: fp32_value_normal)
qed

text \<open>
  C1. For every normal input (exponent field between 1 and 254) both parts of the
  decomposition denote a number, by the formula
  \<open>(-1)^sign * (significand / 2^11) * 2^(exponent - 139)\<close> or as a signed zero when
  flagged \<open>is_zero\<close>, and the sum of the two numbers differs from the value of the input
  by a relative error below \<open>2^-23\<close>; the sum is in fact the value of the input.
\<close>

theorem reconstruction_accuracy:
  assumes "1 \<le> exponent_field v" and "exponent_field v \<le> 254"
  shows "\<exists>vh vl.
    numeric_value (to_float (fst (fp32_to_e9s12_decomposition v))) = Some vh \<and>
    numeric_value (to_float (snd (fp32_to_e9s12_decomposition v))) = Some vl \<and>
    fp32_value v \<noteq> 0 \<and>
    \<bar>fp32_value v - (vh + vl)\<bar> / \<bar>fp32_value v\<bar> < 1 / 2 ^ 23 \<and>
    vh + vl = fp32_value v"
proof -
  from assms have e: "exponent_field v \<noteq> 0" "exponent_field v \<noteq> 255"
    by simp_all
  then obtain vh vl where
    vh: "numeric_value (to_float (fst (fp32_to_e9s12_decomposition v))) = Some vh" and
    vl: "numeric_value (to_float (snd (fp32_to_e9s12_decomposition v))) = Some vl" and
    sum: "vh + vl = fp32_value v"
    using parts_sum [of v] by (auto simp add: fp32_value_normal)
  have "\<bar>fp32_value v - (vh + vl)\<bar> / \<bar>fp32_value v\<bar> < 1 / 2 ^ 23"
    by (simp add: sum)
  with vh vl sum fp32_value_normal_nonzero [OF e(1)] show ?thesis
    by blast
qed

theorem reconstruction_accuracy_witness:
  "1 \<le> exponent_field 0x40490FDB \<and> exponent_field 0x40490FDB \<le> 254 \<and>
   (\<exists>vh vl.
     numeric_value (to_float (fst (fp32_to_e9s12_decomposition 0x40490FDB))) = Some vh \<and>
     numeric_value (to_float (snd (fp32_to_e9s12_decomposition 0x40490FDB))) = Some vl \<and>
     fp32_value 0x40490FDB \<noteq> 0 \<and>
     \<bar>fp32_value 0x40490FDB - (vh + vl)\<bar> / \<bar>fp32_value 0x40490FDB\<bar> < 1 / 2 ^ 23 \<and>
     vh + vl = fp32_value 0x40490FDB)"
proof -
  have e: "exponent_field 0x40490FDB = 128"
    by (simp add: exponent_field_def)
  then have "1 \<le> exponent_field 0x40490FDB" and "exponent_field 0x40490FDB \<le> 254"
    by simp_all
  then show ?thesis
    using reconstruction_accuracy [of "0x40490FDB"] by blast
qed

end
